theory Spec2Isabelle
  imports Complex_Main
begin

section \<open>JavaScript values used by FritzApi.js\<close>

text \<open>
  A JavaScript number is a double. The finite ones are modelled by the rational number
  they denote, next to \<open>NaN\<close> and the two infinities, so a statement about all numbers
  of the model covers all doubles. The arithmetic of the model is exact: the rounding of
  a result to 53 bits, overflow to \<open>Infinity\<close> and the sign of zero are not modelled.
  On \<open>celsiusOnOffToFritz\<close> this loses nothing: doubling, halving, \<open>Math.round\<close> and
  adding 8 or 16 are exact on doubles of magnitude below \<open>2^50\<close>, and a larger value
  ends above 56 or below 16 in the program as in the model, where it is clamped. A
  decimal literal of the model, such as \<open>39 / 5\<close> for 7.8, is the exact rational.
\<close>

datatype jsnum = Fin rat | NaN | PosInf | NegInf

text \<open>
  A string is a list of characters, each read as one UTF-16 code unit below 256
  (the Latin-1 range): the degree sign of the source is the single unit \<open>0xB0\<close>.
\<close>

datatype jsval = JNum jsnum | JStr string

datatype js_error = Error string | TypeError string | ReferenceError string

fun message :: "js_error \<Rightarrow> string" where
  "message (Error m) = m"
| "message (TypeError m) = m"
| "message (ReferenceError m) = m"

subsection \<open>Arithmetic and comparison of numbers\<close>

fun js_neg :: "jsnum \<Rightarrow> jsnum" where
  "js_neg (Fin a) = Fin (- a)"
| "js_neg NaN = NaN"
| "js_neg PosInf = NegInf"
| "js_neg NegInf = PosInf"

fun js_add :: "jsnum \<Rightarrow> jsnum \<Rightarrow> jsnum" where
  "js_add (Fin a) (Fin b) = Fin (a + b)"
| "js_add NaN _ = NaN"
| "js_add _ NaN = NaN"
| "js_add PosInf NegInf = NaN"
| "js_add NegInf PosInf = NaN"
| "js_add PosInf _ = PosInf"
| "js_add NegInf _ = NegInf"
| "js_add (Fin a) PosInf = PosInf"
| "js_add (Fin a) NegInf = NegInf"

definition js_sub :: "jsnum \<Rightarrow> jsnum \<Rightarrow> jsnum" where
  "js_sub a b = js_add a (js_neg b)"

text \<open>The sign of a product or quotient with an infinite operand.\<close>

definition signed_inf :: "bool \<Rightarrow> jsnum" where
  "signed_inf positive = (if positive then PosInf else NegInf)"

fun js_mul :: "jsnum \<Rightarrow> jsnum \<Rightarrow> jsnum" where
  "js_mul (Fin a) (Fin b) = Fin (a * b)"
| "js_mul NaN _ = NaN"
| "js_mul _ NaN = NaN"
| "js_mul (Fin a) PosInf = (if a = 0 then NaN else signed_inf (0 < a))"
| "js_mul (Fin a) NegInf = (if a = 0 then NaN else signed_inf (a < 0))"
| "js_mul PosInf (Fin b) = (if b = 0 then NaN else signed_inf (0 < b))"
| "js_mul NegInf (Fin b) = (if b = 0 then NaN else signed_inf (b < 0))"
| "js_mul PosInf PosInf = PosInf"
| "js_mul NegInf NegInf = PosInf"
| "js_mul PosInf NegInf = NegInf"
| "js_mul NegInf PosInf = NegInf"

text \<open>
  Division; a zero divisor is read as \<open>+0\<close> (the program divides by the constants
  \<open>2\<close> and \<open>0.5\<close> only).
\<close>

fun js_div :: "jsnum \<Rightarrow> jsnum \<Rightarrow> jsnum" where
  "js_div (Fin a) (Fin b) =
     (if b = 0 then (if a = 0 then NaN else signed_inf (0 < a)) else Fin (a / b))"
| "js_div NaN _ = NaN"
| "js_div _ NaN = NaN"
| "js_div (Fin a) PosInf = Fin 0"
| "js_div (Fin a) NegInf = Fin 0"
| "js_div PosInf (Fin b) = signed_inf (0 \<le> b)"
| "js_div NegInf (Fin b) = signed_inf (b < 0)"
| "js_div PosInf PosInf = NaN"
| "js_div PosInf NegInf = NaN"
| "js_div NegInf PosInf = NaN"
| "js_div NegInf NegInf = NaN"

text \<open>\<open>a < b\<close> on numbers: false as soon as one side is \<open>NaN\<close>.\<close>

fun js_lt :: "jsnum \<Rightarrow> jsnum \<Rightarrow> bool" where
  "js_lt NaN _ = False"
| "js_lt _ NaN = False"
| "js_lt (Fin a) (Fin b) = (a < b)"
| "js_lt NegInf b = (b \<noteq> NegInf)"
| "js_lt a PosInf = (a \<noteq> PosInf)"
| "js_lt _ _ = False"

definition js_gt :: "jsnum \<Rightarrow> jsnum \<Rightarrow> bool" where
  "js_gt a b = js_lt b a"

text \<open>Strict equality \<open>===\<close> of two numbers: \<open>NaN\<close> equals nothing.\<close>

definition js_eq :: "jsnum \<Rightarrow> jsnum \<Rightarrow> bool" where
  "js_eq a b = (a \<noteq> NaN \<and> a = b)"

text \<open>\<open>Math.round\<close>: the nearest integer, a tie going towards \<open>+\<infinity>\<close>.\<close>

fun Math_round :: "jsnum \<Rightarrow> jsnum" where
  "Math_round (Fin a) = Fin (of_int \<lfloor>a + 1 / 2\<rfloor>)"
| "Math_round n = n"

subsection \<open>Strings\<close>

text \<open>\<open>s.startsWith(p)\<close>\<close>

fun startsWith :: "string \<Rightarrow> string \<Rightarrow> bool" where
  "startsWith s [] = True"
| "startsWith [] (p # ps) = False"
| "startsWith (c # cs) (p # ps) = (c = p \<and> startsWith cs ps)"

text \<open>
  \<open>s.split(sep)\<close> for a separator of one character: the pieces between the
  separators, so a string without separator gives one piece and \<open>n\<close> separators
  give \<open>n + 1\<close> pieces.
\<close>

fun split :: "char \<Rightarrow> string \<Rightarrow> string list" where
  "split sep [] = [[]]"
| "split sep (c # cs) =
     (if c = sep then [] # split sep cs
      else (case split sep cs of
              [] \<Rightarrow> [[c]]
            | p # ps \<Rightarrow> (c # p) # ps))"

text \<open>\<open>parts[i]\<close>: reading beyond the end of an array gives \<open>undefined\<close>.\<close>

definition at_index :: "'a list \<Rightarrow> nat \<Rightarrow> 'a option" where
  "at_index xs i = (if i < length xs then Some (xs ! i) else None)"

text \<open>
  \<open>toLowerCase\<close> on the code units below 256: the letters \<open>A\<close> to \<open>Z\<close> and the
  Latin-1 capitals \<open>0xC0\<close> to \<open>0xDE\<close> (the multiplication sign \<open>0xD7\<close> apart) move
  up by 32.
\<close>

definition lower_char :: "char \<Rightarrow> char" where
  "lower_char c =
     (let n = (of_char c :: nat) in
      if (65 \<le> n \<and> n \<le> 90) \<or> (192 \<le> n \<and> n \<le> 222 \<and> n \<noteq> 215)
      then char_of (n + 32) else c)"

definition toLowerCase :: "string \<Rightarrow> string" where
  "toLowerCase s = map lower_char s"

text \<open>
  White space that \<open>parseInt\<close>, \<open>parseFloat\<close> and the conversion of a string to a
  number skip: tab, line feed, vertical tab, form feed, carriage return, space and the
  no-break space.
\<close>

definition is_white_space :: "char \<Rightarrow> bool" where
  "is_white_space c = ((of_char c :: nat) \<in> {9, 10, 11, 12, 13, 32, 160})"

definition is_digit :: "char \<Rightarrow> bool" where
  "is_digit c = (48 \<le> (of_char c :: nat) \<and> (of_char c :: nat) \<le> 57)"

text \<open>The value of a digit in a radix up to 36, \<open>None\<close> for any other character.\<close>

definition digit_value :: "nat \<Rightarrow> char \<Rightarrow> nat option" where
  "digit_value radix c =
     (let n = (of_char c :: nat);
          v = (if 48 \<le> n \<and> n \<le> 57 then Some (n - 48)
               else if 97 \<le> n \<and> n \<le> 122 then Some (n - 87)
               else if 65 \<le> n \<and> n \<le> 90 then Some (n - 55)
               else None)
      in case v of None \<Rightarrow> None | Some d \<Rightarrow> (if d < radix then Some d else None))"

definition is_radix_digit :: "nat \<Rightarrow> char \<Rightarrow> bool" where
  "is_radix_digit radix c = (digit_value radix c \<noteq> None)"

text \<open>The integer a string of digits of the radix denotes.\<close>

definition radix_value :: "nat \<Rightarrow> string \<Rightarrow> nat" where
  "radix_value radix ds =
     foldl (\<lambda>acc c. acc * radix + (case digit_value radix c of None \<Rightarrow> 0 | Some d \<Rightarrow> d)) 0 ds"

subsection \<open>Numbers to strings\<close>

definition digit_char :: "nat \<Rightarrow> char" where
  "digit_char d = char_of (48 + d)"

fun show_nat :: "nat \<Rightarrow> string" where
  "show_nat n = (if n < 10 then [digit_char n] else show_nat (n div 10) @ [digit_char (n mod 10)])"

text \<open>The decimal digits of a fraction \<open>0 \<le> r < 1\<close>, at most \<open>fuel\<close> of them.\<close>

fun frac_digits :: "nat \<Rightarrow> rat \<Rightarrow> string" where
  "frac_digits 0 r = []"
| "frac_digits (Suc fuel) r =
     (if r = 0 then []
      else (let d = nat \<lfloor>r * 10\<rfloor> in digit_char d # frac_digits fuel (r * 10 - of_nat d)))"

text \<open>
  The conversion of a number to a string. A finite number is written in plain decimal
  notation with its exact digits, which is what JavaScript prints for the integers and
  half-integers this program produces; the shortest digits that JavaScript picks for
  other doubles, and its exponent notation from \<open>1e21\<close>, are not modelled.
\<close>

fun number_to_string :: "jsnum \<Rightarrow> string" where
  "number_to_string NaN = ''NaN''"
| "number_to_string PosInf = ''Infinity''"
| "number_to_string NegInf = ''-Infinity''"
| "number_to_string (Fin q) =
     (let m = \<bar>q\<bar>; w = \<lfloor>m\<rfloor>; f = m - of_int w
      in (if q < 0 then ''-'' else []) @ show_nat (nat w)
         @ (if f = 0 then [] else ''.'' @ frac_digits 20 f))"

text \<open>\<open>v.toString()\<close> and the conversion in \<open>'...' + v\<close>.\<close>

fun to_string :: "jsval \<Rightarrow> string" where
  "to_string (JStr s) = s"
| "to_string (JNum n) = number_to_string n"

subsection \<open>Strings to numbers\<close>

text \<open>
  \<open>parseInt(s)\<close> without radix: leading white space and one sign are skipped, a
  prefix \<open>0x\<close> or \<open>0X\<close> selects radix 16, then the longest run of digits is read;
  without a digit the result is \<open>NaN\<close>. An argument that is not a string is
  converted to one first. The result is the exact integer; JavaScript rounds an integer
  above \<open>2^53\<close> to the nearest double.
\<close>

definition parseInt_string :: "string \<Rightarrow> jsnum" where
  "parseInt_string input =
     (let s = dropWhile is_white_space input;
          negative = startsWith s ''-'';
          s1 = (if startsWith s ''+'' \<or> startsWith s ''-'' then tl s else s);
          hex = (startsWith s1 ''0x'' \<or> startsWith s1 ''0X'');
          s2 = (if hex then drop 2 s1 else s1);
          radix = (if hex then 16 else 10);
          z = takeWhile (is_radix_digit radix) s2
      in if z = [] then NaN
         else Fin (if negative then - of_nat (radix_value radix z) else of_nat (radix_value radix z)))"

definition parseInt :: "jsval \<Rightarrow> jsnum" where
  "parseInt v = parseInt_string (to_string v)"

text \<open>
  The longest prefix of a string that is a decimal literal: an optional sign, then
  \<open>Infinity\<close>, or digits with an optional fraction and an optional exponent. The
  result is the number and the rest of the string, \<open>None\<close> when no prefix is a literal.
  The number is the exact value of the digits. JavaScript rounds it to the nearest
  double, so on a literal that no double holds exactly (\<open>7.8\<close>, or one of more than 17
  digits) the program continues with a neighbour of the value of the model.
\<close>

definition exponent_part :: "string \<Rightarrow> int \<times> string" where
  "exponent_part s =
     (if startsWith s ''e'' \<or> startsWith s ''E'' then
        (let t = tl s;
             negative = startsWith t ''-'';
             t1 = (if startsWith t ''+'' \<or> startsWith t ''-'' then tl t else t);
             ds = takeWhile is_digit t1
         in if ds = [] then (0, s)
            else (if negative then - int (radix_value 10 ds) else int (radix_value 10 ds),
                  dropWhile is_digit t1))
      else (0, s))"

definition scale10 :: "rat \<Rightarrow> int \<Rightarrow> rat" where
  "scale10 m e = (if 0 \<le> e then m * 10 ^ nat e else m / 10 ^ nat (- e))"

definition decimal_literal :: "string \<Rightarrow> (jsnum \<times> string) option" where
  "decimal_literal s =
     (let negative = startsWith s ''-'';
          s1 = (if startsWith s ''+'' \<or> startsWith s ''-'' then tl s else s)
      in if startsWith s1 ''Infinity''
         then Some (if negative then NegInf else PosInf, drop 8 s1)
         else
           (let ip = takeWhile is_digit s1;
                r1 = dropWhile is_digit s1;
                fp = (if startsWith r1 ''.'' then takeWhile is_digit (tl r1) else []);
                r2 = (if startsWith r1 ''.'' then dropWhile is_digit (tl r1) else r1)
            in if ip = [] \<and> fp = [] then None
               else
                 (let (e, r3) = exponent_part r2;
                      m = of_nat (radix_value 10 ip)
                          + of_nat (radix_value 10 fp) / 10 ^ length fp;
                      v = scale10 m e
                  in Some (Fin (if negative then - v else v), r3))))"

text \<open>\<open>parseFloat(v)\<close>: the literal after leading white space, \<open>NaN\<close> without one.\<close>

definition parseFloat :: "jsval \<Rightarrow> jsnum" where
  "parseFloat v =
     (case decimal_literal (dropWhile is_white_space (to_string v)) of
        None \<Rightarrow> NaN
      | Some (n, rest) \<Rightarrow> n)"

text \<open>
  The conversion of a string to a number (\<open>Number(s)\<close>, and the operand of \<open>>\<close> and
  \<open>*\<close>): white space is trimmed at both ends, the empty string is \<open>0\<close>, the whole
  rest has to be a literal, decimal or with one of the prefixes \<open>0x\<close>, \<open>0o\<close>, \<open>0b\<close>.
\<close>

definition trim :: "string \<Rightarrow> string" where
  "trim s = rev (dropWhile is_white_space (rev (dropWhile is_white_space s)))"

definition prefixed_literal :: "nat \<Rightarrow> string \<Rightarrow> jsnum" where
  "prefixed_literal radix ds =
     (if ds \<noteq> [] \<and> list_all (is_radix_digit radix) ds
      then Fin (of_nat (radix_value radix ds)) else NaN)"

definition string_to_number :: "string \<Rightarrow> jsnum" where
  "string_to_number input =
     (let s = trim input in
      if s = [] then Fin 0
      else if startsWith s ''0x'' \<or> startsWith s ''0X'' then prefixed_literal 16 (drop 2 s)
      else if startsWith s ''0o'' \<or> startsWith s ''0O'' then prefixed_literal 8 (drop 2 s)
      else if startsWith s ''0b'' \<or> startsWith s ''0B'' then prefixed_literal 2 (drop 2 s)
      else (case decimal_literal s of
              None \<Rightarrow> NaN
            | Some (n, rest) \<Rightarrow> (if rest = [] then n else NaN)))"

text \<open>
  \<open>Number(v)\<close> of an array element that may be \<open>undefined\<close>, and the number a
  value that may be \<open>null\<close> stands for in \<open>v > 0\<close> and \<open>v * 1000\<close>.
\<close>

definition Number_undefined :: "string option \<Rightarrow> jsnum" where
  "Number_undefined v = (case v of None \<Rightarrow> NaN | Some s \<Rightarrow> string_to_number s)"

definition Number_null :: "string option \<Rightarrow> jsnum" where
  "Number_null v = (case v of None \<Rightarrow> Fin 0 | Some s \<Rightarrow> string_to_number s)"

declare show_nat.simps [simp del]

section \<open>Settings and arguments\<close>

text \<open>
  The constants of the head of the script that its comment invites the user to change,
  as a record of settings (the script ships with both set).
\<close>

record settings =
  SHOW_NOTIFICATIONS :: bool
  USE_CELSIUS_ON_OFF :: bool

text \<open>
  The arguments object: the command, its parameter, and whatever other keys the caller
  passed (the extension of the record). An absent key is \<open>None\<close>.
\<close>

record arguments =
  switchcmd :: "string option"
  param :: "jsval option"

section \<open>Temperature codec\<close>

text \<open>
  \<open>celsiusOnOffToFritz\<close> (lines 409 to 434). The string branch accepts only
  \<open>on\<close> and \<open>off\<close> and throws otherwise; the values 253 and 254 are passed through
  unconverted, any other number is rounded to the half degree and mapped by
  \<open>16 + (c - 8) / 0.5\<close>; then the result is clamped.
\<close>

definition celsiusOnOffToFritz :: "jsval \<Rightarrow> js_error + jsnum" where
  "celsiusOnOffToFritz celsius_temp =
     (case (case celsius_temp of
              JStr s \<Rightarrow>
                (let l = toLowerCase s in
                 if l = ''off'' then Inr (Fin 253)
                 else if l = ''on'' then Inr (Fin 254)
                 else Inl (Error (''Invalid temperature: '' @ l
                        @ ''. Must be a number or '' @ [CHR 0x27] @ ''on'' @ [CHR 0x27]
                        @ '' or '' @ [CHR 0x27] @ ''off'' @ [CHR 0x27] @ ''.'')))
            | JNum n \<Rightarrow> Inr n) of
        Inl e \<Rightarrow> Inl e
      | Inr t \<Rightarrow>
          (let converted =
                 (if \<not> js_eq t (Fin 253) \<and> \<not> js_eq t (Fin 254)
                  then js_add (Fin 16)
                         (js_div (js_sub (js_div (Math_round (js_mul t (Fin 2))) (Fin 2)) (Fin 8))
                                 (Fin (1 / 2)))
                  else t)
           in Inr (if js_lt converted (Fin 16) then Fin 253
                   else if js_gt converted (Fin 56) \<and> \<not> js_eq converted (Fin 253) then Fin 254
                   else converted)))"

text \<open>
  \<open>fritzToCelsiusOnOff\<close> (lines 440 to 451): the argument goes through \<open>parseInt\<close>;
  253 and 254 become the strings \<open>OFF\<close> and \<open>ON\<close>, any other number, \<open>NaN\<close>
  included, goes through \<open>(f - 16) * 0.5 + 8\<close>.
\<close>

definition fritzToCelsiusOnOff :: "jsval \<Rightarrow> jsval" where
  "fritzToCelsiusOnOff fritz_temp =
     (let f = parseInt fritz_temp in
      if \<not> js_eq f (Fin 253) \<and> \<not> js_eq f (Fin 254)
      then JNum (js_add (js_mul (js_sub f (Fin 16)) (Fin (1 / 2))) (Fin 8))
      else if js_eq f (Fin 253) then JStr ''OFF''
      else if js_eq f (Fin 254) then JStr ''ON''
      else JNum f)"

text \<open>
  \<open>parseArgs\<close> (lines 373 to 388): for \<open>sethkrtsoll\<close> with the Celsius setting, the
  parameter is lower-cased, \<open>off\<close> and \<open>0\<close> become the number 253 and \<open>on\<close> the
  number 254, and \<open>parseFloat\<close> of the result goes through \<open>celsiusOnOffToFritz\<close>.
\<close>

definition parseArgs :: "settings \<Rightarrow> 'a arguments_scheme \<Rightarrow> js_error + 'a arguments_scheme" where
  "parseArgs cfg args =
     (if switchcmd args = Some ''sethkrtsoll'' \<and> USE_CELSIUS_ON_OFF cfg then
        (case param args of
           Some p \<Rightarrow>
             (let lowered = toLowerCase (to_string p);
                  param1 = (if lowered = ''off'' \<or> lowered = ''0'' then JNum (Fin 253)
                            else if lowered = ''on'' then JNum (Fin 254)
                            else JStr lowered)
              in case celsiusOnOffToFritz (JNum (parseFloat param1)) of
                   Inl e \<Rightarrow> Inl e
                 | Inr v \<Rightarrow> Inr (args\<lparr>param := Some (JNum v)\<rparr>))
         | None \<Rightarrow> Inl (Error ''No temperature was passed to the script''))
      else Inr args)"

section \<open>Response interpreter\<close>

definition temperature_verbs :: "string list" where
  "temperature_verbs =
     [''gettemperature'', ''sethkrtsoll'', ''gethkrtsoll'', ''gethkrkomfort'', ''gethkrabsenk'']"

text \<open>
  \<open>parseResponse\<close> (lines 392 to 403). \<open>typeof\<close> is \<open>number\<close> for every number,
  \<open>NaN\<close> included. The unit marker of the source is two code units, the degree sign
  \<open>0xB0\<close> and the letter \<open>C\<close>.
\<close>

definition parseResponse :: "settings \<Rightarrow> string \<Rightarrow> string option \<Rightarrow> string" where
  "parseResponse cfg response cmd =
     (let response1 =
            (if (case cmd of None \<Rightarrow> False | Some c \<Rightarrow> c \<in> set temperature_verbs)
                \<and> USE_CELSIUS_ON_OFF cfg
             then
               (let r = fritzToCelsiusOnOff (JStr response);
                    r1 = (case r of JNum n \<Rightarrow> JStr (number_to_string n @ [CHR 0xB0, CHR ''C''])
                          | JStr s \<Rightarrow> r)
                in ''Heater set to '' @ to_string r1)
             else response)
      in ''Response: '' @ response1)"

subsection \<open>The codec as the specification words it\<close>

text \<open>
  The specification's \<open>toDeviceFormat\<close> on a Celsius number: round to the nearest 0.5
  (half up), map by \<open>16 + (celsius - 8) / 0.5\<close>, then clamp, a result below 16 to 253 and
  a result above 56 that is not already 253 or 254 to 254.
\<close>

definition nearest_half_up :: "rat \<Rightarrow> rat" where
  "nearest_half_up c = of_int (round (2 * c)) / 2"

definition toDeviceFormat_spec :: "rat \<Rightarrow> rat" where
  "toDeviceFormat_spec celsius =
     (let result = 16 + (nearest_half_up celsius - 8) / (1 / 2) in
      if result < 16 then 253
      else if result > 56 \<and> result \<noteq> 253 \<and> result \<noteq> 254 then 254
      else result)"

section \<open>Host application\<close>

text \<open>
  The host application answers a request either with an error (\<open>loadString\<close> rejects)
  or with a body. The script looks at a body only through the callbacks of the host's
  \<open>XMLParser\<close>, so a body is given as the sequence of callbacks that \<open>parse()\<close>
  fires on it. \<open>null_property_message\<close> is the message of the \<open>TypeError\<close> that the
  engine raises when a property of \<open>null\<close> is read.

  \<open>Buffer_from_utf16le\<close> is the global \<open>Buffer\<close> that line 301 names. Where the host
  has one, it is \<open>Inr\<close> of the function \<open>Buffer.from(s, 'utf16le')\<close>, from a string to
  its bytes; where the host has none, it is \<open>Inl\<close> of the \<open>ReferenceError\<close> that
  the name raises. \<open>Buffer\<close> is a global of Node.js; the Scriptable application, for
  which the script is written, has none.
\<close>

datatype xml_event = StartElement string | Characters string | EndElement string

record host =
  loadString_GET :: "string \<Rightarrow> js_error + xml_event list"
  loadString_POST :: "string \<Rightarrow> string \<Rightarrow> js_error + xml_event list"
  null_property_message :: string
  Buffer_from_utf16le :: "js_error + (string \<Rightarrow> nat list)"

section \<open>Challenge solver\<close>

text \<open>
  The module \<open>Crypto-js\<close> that the script imports is not among its sources. What the
  script calls from it is a parameter of the model, a record of functions over the
  library's word arrays \<open>'w\<close>:
  \<^item> \<open>Hex_parse\<close> is \<open>CRYPTO.enc.Hex.parse\<close> on a string, and
    \<open>Hex_parse_undefined\<close> is the error it raises when handed \<open>undefined\<close>
    (it reads the length of its argument);
  \<^item> \<open>PBKDF2\<close> is \<open>CRYPTO.PBKDF2(password, salt, cfg)\<close>;
  \<^item> \<open>WordArray_toString\<close> is \<open>toString()\<close> of a word array, its hexadecimal digits;
  \<^item> \<open>createHash_md5\<close> is \<open>CRYPTO.createHash('md5')\<close>. Where the module has such
    a function, it is \<open>Inr\<close> of \<open>update(buffer)\<close> followed by \<open>digest('hex')\<close>, from
    the bytes of the buffer to the hexadecimal digest; where the module has none, it is
    \<open>Inl\<close> of the \<open>TypeError\<close> that the call raises. \<open>createHash\<close> is a function
    of the \<open>crypto\<close> module of Node.js; Crypto-js, which line 22 imports, has none
    (its MD5 is \<open>CRYPTO.MD5\<close>).
\<close>

datatype hasher = MD5 | SHA1 | SHA256 | SHA512

record pbkdf2_cfg =
  keySize :: nat
  iterations :: jsnum
  hasher :: hasher

text \<open>The password of \<open>PBKDF2\<close> is a string the first time and a word array the second.\<close>

datatype 'w password = Passphrase string | Key 'w

record 'w crypto =
  Hex_parse :: "string \<Rightarrow> 'w"
  Hex_parse_undefined :: js_error
  PBKDF2 :: "'w password \<Rightarrow> 'w \<Rightarrow> pbkdf2_cfg \<Rightarrow> 'w"
  WordArray_toString :: "'w \<Rightarrow> string"
  createHash_md5 :: "js_error + (nat list \<Rightarrow> string)"

text \<open>
  \<open>calculatePbkdf2Response\<close> (lines 277 to 297). The four reads of
  \<open>challengeParts\<close> happen in the order of the source; a missing part is
  \<open>undefined\<close>, which \<open>Number\<close> turns into \<open>NaN\<close> and \<open>Hex.parse\<close> rejects.
\<close>

definition calculatePbkdf2Response :: "'w crypto \<Rightarrow> string \<Rightarrow> string \<Rightarrow> js_error + string" where
  "calculatePbkdf2Response lib challenge password =
     (let challengeParts = split (CHR ''$'') challenge;
          iter1 = Number_undefined (at_index challengeParts 1)
      in case at_index challengeParts 2 of
           None \<Rightarrow> Inl (Hex_parse_undefined lib)
         | Some part2 \<Rightarrow>
             (let salt1 = Hex_parse lib part2;
                  iter2 = Number_undefined (at_index challengeParts 3)
              in case at_index challengeParts 4 of
                   None \<Rightarrow> Inl (Hex_parse_undefined lib)
                 | Some part4 \<Rightarrow>
                     (let salt2 = Hex_parse lib part4;
                          hash1 = PBKDF2 lib (Passphrase password) salt1
                                    \<lparr>keySize = 256 div 32, iterations = iter1, hasher = SHA256\<rparr>;
                          hash2 = PBKDF2 lib (Key hash1) salt2
                                    \<lparr>keySize = 256 div 32, iterations = iter2, hasher = SHA256\<rparr>
                      in Inr (part4 @ ''$'' @ WordArray_toString lib hash2))))"

text \<open>
  \<open>calculateMd5Response\<close> (lines 299 to 305), statement by statement: line 301 reads
  \<open>Buffer\<close> and line 302 calls \<open>CRYPTO.createHash\<close>, and either raises where the
  host or the module does not provide it.
\<close>

definition calculateMd5Response ::
    "host \<Rightarrow> 'w crypto \<Rightarrow> string \<Rightarrow> string \<Rightarrow> js_error + string" where
  "calculateMd5Response h lib challenge password =
     (let response = challenge @ ''-'' @ password in
      case Buffer_from_utf16le h of
        Inl err \<Rightarrow> Inl err
      | Inr from \<Rightarrow>
          (let responseBuffer = from response in
           case createHash_md5 lib of
             Inl err \<Rightarrow> Inl err
           | Inr md5Sum \<Rightarrow> Inr (challenge @ ''-'' @ md5Sum responseBuffer)))"

section \<open>Session negotiator\<close>

definition BOX_URL :: string where
  "BOX_URL = ''http://fritz.box''"

definition LOGIN_SID_ROUTE :: string where
  "LOGIN_SID_ROUTE = ''/login_sid.lua?version=2''"

record login_state =
  challenge :: string
  blockTime :: "string option"
  isPbkdf2 :: bool

text \<open>
  The variables that the callbacks of \<open>getLoginState\<close> share, \<open>None\<close> for
  \<open>null\<close>, and the two callbacks (lines 252 to 266).
\<close>

record login_vars =
  currentElement :: "string option"
  challenge_var :: "string option"
  blockTime_var :: "string option"

fun login_callback :: "login_vars \<Rightarrow> xml_event \<Rightarrow> login_vars" where
  "login_callback v (StartElement name) =
     (if name = ''Challenge'' \<or> name = ''BlockTime'' then v\<lparr>currentElement := Some name\<rparr> else v)"
| "login_callback v (Characters val) =
     (let v1 = (if currentElement v = Some ''Challenge''
                then v\<lparr>challenge_var := Some val, currentElement := Some []\<rparr> else v)
      in if currentElement v1 = Some ''BlockTime''
         then v1\<lparr>blockTime_var := Some val, currentElement := Some []\<rparr> else v1)"
| "login_callback v (EndElement name) = v"

text \<open>\<open>getLoginState\<close> (lines 243 to 275); \<open>challenge.startsWith\<close> raises on \<open>null\<close>.\<close>

definition getLoginState :: "host \<Rightarrow> js_error + login_state" where
  "getLoginState h =
     (case loadString_GET h (BOX_URL @ LOGIN_SID_ROUTE) of
        Inl err \<Rightarrow> Inl err
      | Inr response \<Rightarrow>
          (let v = foldl login_callback
                     \<lparr>currentElement = None, challenge_var = None, blockTime_var = None\<rparr> response
           in case challenge_var v of
                None \<Rightarrow> Inl (TypeError (null_property_message h))
              | Some c \<Rightarrow>
                  Inr \<lparr>challenge = c, blockTime = blockTime_var v, isPbkdf2 = startsWith c ''2$''\<rparr>))"

text \<open>
  \<open>encodeURIComponent\<close> on code units below 256: the unreserved characters stay, any
  other is written as the bytes of its UTF-8 encoding, each as \<open>%\<close> and two
  upper-case hexadecimal digits.
\<close>

definition hex_digit :: "nat \<Rightarrow> char" where
  "hex_digit n = ''0123456789ABCDEF'' ! (n mod 16)"

definition percent_byte :: "nat \<Rightarrow> string" where
  "percent_byte b = [CHR ''%'', hex_digit (b div 16), hex_digit b]"

definition uri_unreserved :: "char \<Rightarrow> bool" where
  "uri_unreserved c =
     (let n = (of_char c :: nat) in
      (65 \<le> n \<and> n \<le> 90) \<or> (97 \<le> n \<and> n \<le> 122) \<or> (48 \<le> n \<and> n \<le> 57)
      \<or> c \<in> set ''-_.!~*()'' \<or> n = 39)"

definition encodeURIComponent :: "string \<Rightarrow> string" where
  "encodeURIComponent s =
     concat (map (\<lambda>c. let n = (of_char c :: nat) in
                       if uri_unreserved c then [c]
                       else if n < 128 then percent_byte n
                       else percent_byte (192 + n div 64) @ percent_byte (128 + n mod 64)) s)"

text \<open>
  The body of the login request (lines 311 to 320): the two keys of \<open>params\<close> in the
  order of their insertion, joined by \<open>&\<close>.
\<close>

definition login_body :: "string \<Rightarrow> string \<Rightarrow> string" where
  "login_body username challengeResponse =
     encodeURIComponent ''username'' @ ''='' @ encodeURIComponent username @ ''&''
     @ encodeURIComponent ''response'' @ ''='' @ encodeURIComponent challengeResponse"

text \<open>The variables and the callbacks of \<open>sendResponse\<close> (lines 325 to 337).\<close>

record sid_vars =
  sid_currentElement :: "string option"
  sid_var :: "string option"

fun sid_callback :: "sid_vars \<Rightarrow> xml_event \<Rightarrow> sid_vars" where
  "sid_callback v (StartElement name) =
     (if name = ''SID'' then v\<lparr>sid_currentElement := Some name\<rparr> else v)"
| "sid_callback v (Characters val) =
     (if sid_currentElement v = Some ''SID''
      then v\<lparr>sid_var := Some val, sid_currentElement := Some []\<rparr> else v)"
| "sid_callback v (EndElement name) = v"

text \<open>\<open>sendResponse\<close> (lines 307 to 341): the result is the SID, or \<open>null\<close>.\<close>

definition sendResponse :: "host \<Rightarrow> string \<Rightarrow> string \<Rightarrow> js_error + string option" where
  "sendResponse h username challengeResponse =
     (case loadString_POST h (BOX_URL @ LOGIN_SID_ROUTE) (login_body username challengeResponse) of
        Inl err \<Rightarrow> Inl err
      | Inr response \<Rightarrow>
          Inr (sid_var (foldl sid_callback \<lparr>sid_currentElement = None, sid_var = None\<rparr> response)))"

text \<open>
  What a run of \<open>create\<close> does besides returning, in the order in which it happens:
  the two requests, the lines written to the console, the notifications, the timer, and
  the calls of the two functions that compute the response to the challenge.
\<close>

datatype event =
    HttpGet string
  | HttpPost string string
  | ConsoleLog string
  | Notification string
  | TimerSchedule jsnum
  | Call_calculatePbkdf2Response string
  | Call_calculateMd5Response string

text \<open>\<open>showNotification\<close> (lines 455 to 464).\<close>

definition showNotification :: "settings \<Rightarrow> string \<Rightarrow> event list" where
  "showNotification cfg msg =
     (if SHOW_NOTIFICATIONS cfg then [Notification msg, ConsoleLog (''Notification: '' @ msg)] else [])"

definition waiting_message :: "string option \<Rightarrow> string" where
  "waiting_message bt =
     ''Waiting for '' @ (case bt of None \<Rightarrow> ''null'' | Some s \<Rightarrow> s) @ '' seconds...''"

text \<open>
  \<open>create\<close> (lines 208 to 241): the events of the run and its outcome, the error
  thrown or the value returned (the SID, or \<open>null\<close>). Every error raised inside the
  \<open>try\<close> block is caught and thrown again as an \<open>Error\<close> whose message starts with
  \<open>Failed to login!\<close>.
\<close>

definition login_failed :: "js_error \<Rightarrow> js_error" where
  "login_failed err = Error (''Failed to login! '' @ message err)"

definition create ::
    "settings \<Rightarrow> host \<Rightarrow> 'w crypto \<Rightarrow> string \<Rightarrow> string \<Rightarrow> event list \<times> (js_error + string option)" where
  "create cfg h lib user pass =
     (let t0 = [HttpGet (BOX_URL @ LOGIN_SID_ROUTE)] in
      case getLoginState h of
        Inl err \<Rightarrow> (t0, Inl (login_failed err))
      | Inr state \<Rightarrow>
          (let (t1, challengeResponse) =
                 (if isPbkdf2 state
                  then ([ConsoleLog ''PBKDF2 supported'',
                         Call_calculatePbkdf2Response (challenge state)],
                        calculatePbkdf2Response lib (challenge state) pass)
                  else ([ConsoleLog ''Falling back to MD5'',
                         Call_calculateMd5Response (challenge state)],
                        calculateMd5Response h lib (challenge state) pass))
           in case challengeResponse of
                Inl err \<Rightarrow> (t0 @ t1, Inl (login_failed err))
              | Inr cr \<Rightarrow>
                  (let t2 = (if js_gt (Number_null (blockTime state)) (Fin 0)
                             then [ConsoleLog (waiting_message (blockTime state))]
                                  @ showNotification cfg (waiting_message (blockTime state))
                                  @ [TimerSchedule (js_mul (Number_null (blockTime state)) (Fin 1000))]
                             else []);
                       t3 = [HttpPost (BOX_URL @ LOGIN_SID_ROUTE) (login_body user cr)]
                   in case sendResponse h user cr of
                        Inl err \<Rightarrow> (t0 @ t1 @ t2 @ t3, Inl (login_failed err))
                      | Inr sid \<Rightarrow>
                          (if sid = Some ''0000000000000000''
                           then (t0 @ t1 @ t2 @ t3,
                                 Inl (login_failed (Error ''Wrong username or password'')))
                           else (t0 @ t1 @ t2 @ t3, Inr sid)))))"

text \<open>
  The challenge solver is the branch of \<open>create\<close> on \<open>isPbkdf2\<close> (lines 212 to 219),
  with the flag computed as \<open>getLoginState\<close> does (line 273).
\<close>

definition solve :: "host \<Rightarrow> 'w crypto \<Rightarrow> string \<Rightarrow> string \<Rightarrow> js_error + string" where
  "solve h lib c pass =
     (if startsWith c ''2$'' then calculatePbkdf2Response lib c pass
      else calculateMd5Response h lib c pass)"

subsection \<open>Stages of a handshake\<close>

datatype stage = FetchingState | WaitingLockout | Solving | Submitting

fun stage_of :: "event \<Rightarrow> stage option" where
  "stage_of (HttpGet url) = Some FetchingState"
| "stage_of (TimerSchedule ms) = Some WaitingLockout"
| "stage_of (Call_calculatePbkdf2Response c) = Some Solving"
| "stage_of (Call_calculateMd5Response c) = Some Solving"
| "stage_of (HttpPost url body) = Some Submitting"
| "stage_of (ConsoleLog msg) = None"
| "stage_of (Notification msg) = None"

definition stages :: "event list \<Rightarrow> stage list" where
  "stages t = List.map_filter stage_of t"

text \<open>The order of the stages in the words of the specification: the wait comes before the solver.\<close>

definition stage_order_spec :: "bool \<Rightarrow> stage list" where
  "stage_order_spec lockout =
     [FetchingState] @ (if lockout then [WaitingLockout] else []) @ [Solving, Submitting]"





subsection \<open>Concrete hosts\<close>

text \<open>
  Bodies as the box sends them: the login information with a challenge and a block
  time, and the answer to a login with or without a \<open>SID\<close> element.
\<close>

definition login_info :: "string \<Rightarrow> string \<Rightarrow> xml_event list" where
  "login_info c bt =
     [StartElement ''SessionInfo'',
      StartElement ''SID'', Characters ''0000000000000000'', EndElement ''SID'',
      StartElement ''Challenge'', Characters c, EndElement ''Challenge'',
      StartElement ''BlockTime'', Characters bt, EndElement ''BlockTime'',
      EndElement ''SessionInfo'']"

definition session_info :: "string \<Rightarrow> xml_event list" where
  "session_info sid =
     [StartElement ''SessionInfo'',
      StartElement ''SID'', Characters sid, EndElement ''SID'',
      EndElement ''SessionInfo'']"

text \<open>
  The Scriptable application in front of a box that answers with these two bodies. It
  has no \<open>Buffer\<close>; the messages are those of its engine.
\<close>

definition box :: "xml_event list \<Rightarrow> xml_event list \<Rightarrow> host" where
  "box info answer =
     \<lparr>loadString_GET = (\<lambda>url. Inr info),
      loadString_POST = (\<lambda>url body. Inr answer),
      null_property_message = ''null is not an object'',
      Buffer_from_utf16le = Inl (ReferenceError (''Can'' @ [CHR 0x27] @ ''t find variable: Buffer''))\<rparr>"

text \<open>
  A stand-in for Crypto-js in concrete runs: word arrays are their hexadecimal digits,
  the keys that \<open>PBKDF2\<close> derives are placeholders of the right length, and, as in
  Crypto-js, there is no \<open>createHash\<close>.
\<close>

definition placeholder_crypto :: "string crypto" where
  "placeholder_crypto =
     \<lparr>Hex_parse = (\<lambda>s. s),
      Hex_parse_undefined = TypeError ''undefined is not an object'',
      PBKDF2 = (\<lambda>pw salt cfg. ''0000000000000000000000000000000000000000000000000000000000000000''),
      WordArray_toString = (\<lambda>w. w),
      createHash_md5 = Inl (TypeError ''CRYPTO.createHash is not a function'')\<rparr>"

definition shipped_settings :: settings where
  "shipped_settings = \<lparr>SHOW_NOTIFICATIONS = True, USE_CELSIUS_ON_OFF = True\<rparr>"

subsection \<open>The events of the stages\<close>

text \<open>The events of the solver's branch of \<open>create\<close> and of its wait, by name.\<close>

definition solve_events :: "string \<Rightarrow> event list" where
  "solve_events c =
     (if startsWith c ''2$'' then [ConsoleLog ''PBKDF2 supported'', Call_calculatePbkdf2Response c]
      else [ConsoleLog ''Falling back to MD5'', Call_calculateMd5Response c])"

definition wait_events :: "settings \<Rightarrow> string option \<Rightarrow> event list" where
  "wait_events cfg bt =
     (if js_gt (Number_null bt) (Fin 0)
      then [ConsoleLog (waiting_message bt)] @ showNotification cfg (waiting_message bt)
           @ [TimerSchedule (js_mul (Number_null bt) (Fin 1000))]
      else [])"

section \<open>Digits\<close>

text \<open>A natural number printed and read back is itself.\<close>

lemma of_char_digit_char: "d < 10 \<Longrightarrow> (of_char (digit_char d) :: nat) = 48 + d"
  by (simp add: digit_char_def)

lemma is_digit_digit_char: "d < 10 \<Longrightarrow> is_digit (digit_char d)"
  by (simp add: is_digit_def of_char_digit_char)

lemma digit_value_digit_char: "d < 10 \<Longrightarrow> digit_value 10 (digit_char d) = Some d"
  by (simp add: digit_value_def of_char_digit_char)

lemma is_digit_radix: "is_digit c \<Longrightarrow> is_radix_digit 10 c"
  by (auto simp add: is_digit_def is_radix_digit_def digit_value_def Let_def)


lemma show_nat_digits: "list_all is_digit (show_nat n)"
proof (induction n rule: show_nat.induct)
  case (1 n)
  show ?case
  proof (cases "n < 10")
    case True
    then show ?thesis by (simp add: show_nat.simps [of n] is_digit_digit_char)
  next
    case False
    with 1 show ?thesis by (simp add: show_nat.simps [of n] is_digit_digit_char)
  qed
qed

lemma show_nat_not_Nil: "show_nat n \<noteq> []"
  by (simp add: show_nat.simps [of n])

lemma radix_value_snoc:
  "radix_value r (ds @ [c]) = radix_value r ds * r + (case digit_value r c of None \<Rightarrow> 0 | Some d \<Rightarrow> d)"
  by (simp add: radix_value_def)

lemma radix_value_show_nat: "radix_value 10 (show_nat n) = n"
proof (induction n rule: show_nat.induct)
  case (1 n)
  show ?case
  proof (cases "n < 10")
    case True
    then show ?thesis
      by (simp add: show_nat.simps [of n] radix_value_def digit_value_digit_char)
  next
    case False
    with 1 show ?thesis
      by (simp add: show_nat.simps [of n] radix_value_snoc digit_value_digit_char)
  qed
qed

lemma digits_no_space: "list_all is_digit s \<Longrightarrow> dropWhile is_white_space s = s"
  by (cases s) (auto simp add: is_digit_def is_white_space_def)

lemma digits_no_sign: "list_all is_digit s \<Longrightarrow> \<not> startsWith s ''+'' \<and> \<not> startsWith s ''-''"
  by (cases s) (auto simp add: is_digit_def)

lemma digits_no_hex: "list_all is_digit s \<Longrightarrow> \<not> startsWith s ''0x'' \<and> \<not> startsWith s ''0X''"
  by (cases s; cases "tl s") (auto simp add: is_digit_def)

lemma takeWhile_digits: "list_all is_digit s \<Longrightarrow> takeWhile (is_radix_digit 10) s = s"
  by (induction s) (auto simp add: is_digit_radix)

lemma parseInt_string_digits:
  assumes "list_all is_digit s" and "s \<noteq> []"
  shows "parseInt_string s = Fin (of_nat (radix_value 10 s))"
  using assms digits_no_sign [OF assms(1)] digits_no_hex [OF assms(1)]
  by (simp add: parseInt_string_def digits_no_space takeWhile_digits)

lemma number_to_string_nat: "number_to_string (Fin (of_nat n)) = show_nat n"
  by simp

lemma parseInt_nat: "parseInt (JNum (Fin (of_nat n))) = Fin (of_nat n)"
  by (simp only: parseInt_def to_string.simps number_to_string_nat
      parseInt_string_digits [OF show_nat_digits show_nat_not_Nil] radix_value_show_nat)




section \<open>The codec on numbers\<close>

lemma code_numeric:
  "celsiusOnOffToFritz (JNum (Fin c)) =
     Inr (if c = 253 \<or> c = 254 then Fin c
          else (let r = 16 + (of_int \<lfloor>c * 2 + 1 / 2\<rfloor> / 2 - 8) / (1 / 2) in
                if r < 16 then Fin 253 else if r > 56 \<and> r \<noteq> 253 then Fin 254 else Fin r))"
  by (simp add: celsiusOnOffToFritz_def js_eq_def js_sub_def js_gt_def Let_def)

lemma spec_254: "toDeviceFormat_spec 254 = 254"
  by code_simp

lemma toDeviceFormat_numeric:
  "c \<noteq> 253 \<Longrightarrow> celsiusOnOffToFritz (JNum (Fin c)) = Inr (Fin (toDeviceFormat_spec c))"
proof (cases "c = 254")
  case True
  then show ?thesis by (simp add: code_numeric spec_254)
next
  case False
  assume "c \<noteq> 253"
  with False show ?thesis
    by (simp add: code_numeric toDeviceFormat_spec_def nearest_half_up_def round_def Let_def mult.commute)
qed

lemma roundtrip_nat:
  assumes "16 \<le> k" and "k \<le> (56::nat)"
  shows "celsiusOnOffToFritz (JNum (Fin (of_nat k / 2))) = Inr (Fin (of_nat k))"
    and "fritzToCelsiusOnOff (JNum (Fin (of_nat k))) = JNum (Fin (of_nat k / 2))"
proof -
  have "\<lfloor>(of_nat k :: rat) + 1 / 2\<rfloor> = int k" by linarith
  with assms show "celsiusOnOffToFritz (JNum (Fin (of_nat k / 2))) = Inr (Fin (of_nat k))"
    by (simp add: code_numeric Let_def)
  from assms show "fritzToCelsiusOnOff (JNum (Fin (of_nat k))) = JNum (Fin (of_nat k / 2))"
    by (simp add: fritzToCelsiusOnOff_def parseInt_nat js_eq_def js_sub_def Let_def field_simps)
qed

lemma parseFloat_253: "parseFloat (JNum (Fin 253)) = Fin 253"
  by code_simp

lemma parseFloat_254: "parseFloat (JNum (Fin 254)) = Fin 254"
  by code_simp

lemma parseArgs_off:
  assumes "USE_CELSIUS_ON_OFF cfg" and "switchcmd args = Some ''sethkrtsoll''"
    and "param args = Some (JStr s)" and "toLowerCase s = ''off'' \<or> toLowerCase s = ''0''"
  shows "parseArgs cfg args = Inr (args\<lparr>param := Some (JNum (Fin 253))\<rparr>)"
  using assms by (auto simp add: parseArgs_def parseFloat_253 code_numeric Let_def)

lemma parseArgs_on:
  assumes "USE_CELSIUS_ON_OFF cfg" and "switchcmd args = Some ''sethkrtsoll''"
    and "param args = Some (JStr s)" and "toLowerCase s = ''on''"
  shows "parseArgs cfg args = Inr (args\<lparr>param := Some (JNum (Fin 254))\<rparr>)"
  using assms by (auto simp add: parseArgs_def parseFloat_254 code_numeric Let_def)

lemma toDevice_7_8: "celsiusOnOffToFritz (JNum (Fin (39 / 5))) = Inr (Fin 16)"
  by code_simp

lemma toDevice_40: "celsiusOnOffToFritz (JNum (Fin 40)) = Inr (Fin 254)"
  by code_simp

lemma toDevice_253: "celsiusOnOffToFritz (JNum (Fin 253)) = Inr (Fin 253)"
  by code_simp

lemma toDevice_7_7: "celsiusOnOffToFritz (JNum (Fin (77 / 10))) = Inr (Fin 253)"
  by code_simp

lemma toDevice_off: "toLowerCase s = ''off'' \<Longrightarrow> celsiusOnOffToFritz (JStr s) = Inr (Fin 253)"
  by (simp add: celsiusOnOffToFritz_def js_eq_def js_gt_def)

lemma toDevice_on: "toLowerCase s = ''on'' \<Longrightarrow> celsiusOnOffToFritz (JStr s) = Inr (Fin 254)"
  by (simp add: celsiusOnOffToFritz_def js_eq_def js_gt_def)

section \<open>The interpreter\<close>

lemma startsWith_append: "startsWith (p @ s) p"
  by (induction p) simp_all

lemma parseResponse_temperature:
  assumes "cmd \<in> set temperature_verbs" and "USE_CELSIUS_ON_OFF cfg"
  shows "parseResponse cfg raw (Some cmd) =
           ''Response: '' @ ''Heater set to ''
           @ (case fritzToCelsiusOnOff (JStr raw) of
                JNum n \<Rightarrow> number_to_string n @ [CHR 0xB0, CHR ''C'']
              | JStr s \<Rightarrow> s)"
  using assms by (simp add: parseResponse_def Let_def split: jsval.splits)

lemma parseResponse_prefix: "startsWith (parseResponse cfg raw verb) ''Response: ''"
  unfolding parseResponse_def Let_def by (rule startsWith_append)

lemma fritz_38: "fritzToCelsiusOnOff (JStr ''38'') = JNum (Fin 19)"
  by code_simp

lemma nts_19: "number_to_string (Fin 19) = ''19''"
  by code_simp




section \<open>The runs of the negotiator\<close>

text \<open>\<open>create\<close> by the outcome of its stages.\<close>

lemma getLoginState_isPbkdf2:
  "getLoginState h = Inr st \<Longrightarrow> isPbkdf2 st = startsWith (challenge st) ''2$''"
  by (auto simp add: getLoginState_def Let_def split: sum.splits option.splits)

lemma create_fetch_failed:
  "getLoginState h = Inl err \<Longrightarrow>
   create cfg h lib user pass = ([HttpGet (BOX_URL @ LOGIN_SID_ROUTE)], Inl (login_failed err))"
  by (simp add: create_def)

lemma create_solve_failed:
  "getLoginState h = Inr st \<Longrightarrow> solve h lib (challenge st) pass = Inl err \<Longrightarrow>
   create cfg h lib user pass =
     (HttpGet (BOX_URL @ LOGIN_SID_ROUTE) # solve_events (challenge st), Inl (login_failed err))"
  by (frule getLoginState_isPbkdf2)
     (auto simp add: create_def solve_def solve_events_def Let_def split: if_splits)

lemma create_solved:
  "getLoginState h = Inr st \<Longrightarrow> solve h lib (challenge st) pass = Inr cr \<Longrightarrow>
   create cfg h lib user pass =
     (HttpGet (BOX_URL @ LOGIN_SID_ROUTE) # solve_events (challenge st) @ wait_events cfg (blockTime st)
        @ [HttpPost (BOX_URL @ LOGIN_SID_ROUTE) (login_body user cr)],
      case sendResponse h user cr of
        Inl err \<Rightarrow> Inl (login_failed err)
      | Inr sid \<Rightarrow> (if sid = Some ''0000000000000000''
                    then Inl (login_failed (Error ''Wrong username or password''))
                    else Inr sid))"
  by (frule getLoginState_isPbkdf2)
     (auto simp add: create_def solve_def solve_events_def wait_events_def Let_def
           split: if_splits sum.splits)

lemma create_never_sentinel:
  "snd (create cfg h lib user pass) \<noteq> Inr (Some ''0000000000000000'')"
proof (cases "getLoginState h")
  case (Inl err)
  then show ?thesis by (simp add: create_fetch_failed)
next
  case (Inr st)
  show ?thesis
  proof (cases "solve h lib (challenge st) pass")
    case (Inl err)
    with Inr show ?thesis by (simp add: create_solve_failed)
  next
    case solved: (Inr cr)
    with Inr show ?thesis by (simp add: create_solved split: sum.splits)
  qed
qed

lemma stages_solve_events: "stages (solve_events c) = [Solving]"
  by (simp add: stages_def solve_events_def List.map_filter_simps)

lemma stages_wait_events:
  "stages (wait_events cfg bt) = (if js_gt (Number_null bt) (Fin 0) then [WaitingLockout] else [])"
  by (simp add: stages_def wait_events_def showNotification_def List.map_filter_simps)

lemma stages_append: "stages (xs @ ys) = stages xs @ stages ys"
  by (simp add: stages_def List.map_filter_def)

lemma stages_Cons: "stages (e # t) = (case stage_of e of None \<Rightarrow> stages t | Some s \<Rightarrow> s # stages t)"
  by (simp add: stages_def List.map_filter_simps split: option.splits)

lemma stages_Nil: "stages [] = []"
  by (simp add: stages_def List.map_filter_simps)










section \<open>The claims\<close>

subsection \<open>Challenge solver\<close>

text \<open>
  Claim C1. For a challenge that starts with \<open>2$\<close> and splits at the dollar signs
  into the five fields tag, iter1, salt1, iter2 and salt2, and for every secret, the
  solver returns salt2, a dollar sign and the hexadecimal digits of hash2, where hash1 is
  \<open>PBKDF2\<close> with \<open>SHA256\<close> of the secret with the salt parsed from salt1, the
  iteration count read from iter1 and a key of \<open>256 / 32\<close> words, and hash2 is the same
  function of hash1 with the salt parsed from salt2 and the count read from iter2. This
  holds for every host and every library.
\<close>

theorem solve_pbkdf2:
  assumes "startsWith c ''2$''"
    and "split (CHR ''$'') c = [tag, iter1, salt1, iter2, salt2]"
  shows "solve h lib c secret =
           Inr (salt2 @ ''$'' @ WordArray_toString lib
                  (PBKDF2 lib
                     (Key (PBKDF2 lib (Passphrase secret) (Hex_parse lib salt1)
                             \<lparr>keySize = 256 div 32, iterations = string_to_number iter1, hasher = SHA256\<rparr>))
                     (Hex_parse lib salt2)
                     \<lparr>keySize = 256 div 32, iterations = string_to_number iter2, hasher = SHA256\<rparr>))"
  using assms
  by (simp add: solve_def calculatePbkdf2Response_def at_index_def Number_undefined_def Let_def)

theorem solve_pbkdf2_witness:
  "startsWith ''2$10000$5A1711$2000$AA00'' ''2$''
   \<and> split (CHR ''$'') ''2$10000$5A1711$2000$AA00'' = [''2'', ''10000'', ''5A1711'', ''2000'', ''AA00'']
   \<and> (\<forall>h lib secret. solve h lib ''2$10000$5A1711$2000$AA00'' secret =
        Inr (''AA00$'' @ WordArray_toString lib
               (PBKDF2 lib
                  (Key (PBKDF2 lib (Passphrase secret) (Hex_parse lib ''5A1711'')
                          \<lparr>keySize = 8, iterations = Fin 10000, hasher = SHA256\<rparr>))
                  (Hex_parse lib ''AA00'')
                  \<lparr>keySize = 8, iterations = Fin 2000, hasher = SHA256\<rparr>)))"
proof -
  have h1: "startsWith ''2$10000$5A1711$2000$AA00'' ''2$''" by simp
  have h2: "split (CHR ''$'') ''2$10000$5A1711$2000$AA00'' = [''2'', ''10000'', ''5A1711'', ''2000'', ''AA00'']"
    by simp
  have n1: "string_to_number ''10000'' = Fin 10000"
    by (simp add: string_to_number_def trim_def is_white_space_def decimal_literal_def is_digit_def
        exponent_part_def scale10_def radix_value_def digit_value_def Let_def)
  have n2: "string_to_number ''2000'' = Fin 2000"
    by (simp add: string_to_number_def trim_def is_white_space_def decimal_literal_def is_digit_def
        exponent_part_def scale10_def radix_value_def digit_value_def Let_def)
  have "solve h lib ''2$10000$5A1711$2000$AA00'' secret =
        Inr (''AA00$'' @ WordArray_toString lib
               (PBKDF2 lib
                  (Key (PBKDF2 lib (Passphrase secret) (Hex_parse lib ''5A1711'')
                          \<lparr>keySize = 8, iterations = Fin 10000, hasher = SHA256\<rparr>))
                  (Hex_parse lib ''AA00'')
                  \<lparr>keySize = 8, iterations = Fin 2000, hasher = SHA256\<rparr>))"
    for h and lib :: "'w crypto" and secret
    using solve_pbkdf2 [OF h1 h2, of h lib secret] by (simp add: n1 n2)
  with h1 h2 show ?thesis by blast
qed

text \<open>
  Claim C2 states that for a challenge that does not start with \<open>2$\<close> the solver
  returns the challenge, a hyphen and the hexadecimal MD5 digest of the UTF-16LE bytes of
  challenge, hyphen and secret. \<open>calculateMd5Response\<close> is written to do so, with
  \<open>Buffer.from\<close> and \<open>CRYPTO.createHash\<close>, and does so exactly where the host has a
  \<open>Buffer\<close> and the module a \<open>createHash\<close>. Where the host has no \<open>Buffer\<close>, as
  Scriptable, it throws the host's \<open>ReferenceError\<close> at line 301; where the module
  has no \<open>createHash\<close>, as Crypto-js, it throws the \<open>TypeError\<close> of line 302. So in
  the application the script is written for, the solver returns nothing on any such
  challenge.
\<close>

theorem solve_md5:
  assumes "\<not> startsWith c ''2$''"
  shows "(Buffer_from_utf16le h = Inl err \<longrightarrow> solve h lib c secret = Inl err)
       \<and> (Buffer_from_utf16le h = Inr bytes \<longrightarrow> createHash_md5 lib = Inl err \<longrightarrow>
            solve h lib c secret = Inl err)
       \<and> (Buffer_from_utf16le h = Inr bytes \<longrightarrow> createHash_md5 lib = Inr md5 \<longrightarrow>
            solve h lib c secret = Inr (c @ ''-'' @ md5 (bytes (c @ ''-'' @ secret))))"
  using assms by (simp add: solve_def calculateMd5Response_def Let_def)

text \<open>
  The challenge \<open>abcdef01\<close> with the secret \<open>pw\<close> in Scriptable: the solver throws,
  and \<open>create\<close> throws the same error again as a failed login, where the claim gives
  the string that starts with \<open>abcdef01-\<close>.
\<close>

theorem solve_md5_witness:
  "\<not> startsWith ''abcdef01'' ''2$''
   \<and> Buffer_from_utf16le (box (login_info ''abcdef01'' ''0'') (session_info ''9a8b7c6d5e4f3a2b''))
       = Inl (ReferenceError (''Can'' @ [CHR 0x27] @ ''t find variable: Buffer''))
   \<and> solve (box (login_info ''abcdef01'' ''0'') (session_info ''9a8b7c6d5e4f3a2b''))
         placeholder_crypto ''abcdef01'' ''pw''
       = Inl (ReferenceError (''Can'' @ [CHR 0x27] @ ''t find variable: Buffer''))
   \<and> create shipped_settings (box (login_info ''abcdef01'' ''0'') (session_info ''9a8b7c6d5e4f3a2b''))
         placeholder_crypto ''user'' ''pw''
       = ([HttpGet ''http://fritz.box/login_sid.lua?version=2'',
           ConsoleLog ''Falling back to MD5'',
           Call_calculateMd5Response ''abcdef01''],
          Inl (Error (''Failed to login! Can'' @ [CHR 0x27] @ ''t find variable: Buffer'')))"
proof -
  let ?h = "box (login_info ''abcdef01'' ''0'') (session_info ''9a8b7c6d5e4f3a2b'')"
  have h1: "\<not> startsWith ''abcdef01'' ''2$''" by simp
  have h2: "Buffer_from_utf16le ?h = Inl (ReferenceError (''Can'' @ [CHR 0x27] @ ''t find variable: Buffer''))"
    by (simp add: box_def)
  have run: "create shipped_settings ?h placeholder_crypto ''user'' ''pw''
       = ([HttpGet ''http://fritz.box/login_sid.lua?version=2'',
           ConsoleLog ''Falling back to MD5'',
           Call_calculateMd5Response ''abcdef01''],
          Inl (Error (''Failed to login! Can'' @ [CHR 0x27] @ ''t find variable: Buffer'')))"
    by code_simp
  from solve_md5 [OF h1, of ?h _ placeholder_crypto "''pw''"] h2
  have "solve ?h placeholder_crypto ''abcdef01'' ''pw''
       = Inl (ReferenceError (''Can'' @ [CHR 0x27] @ ''t find variable: Buffer''))"
    by blast
  with h1 h2 run show ?thesis by blast
qed

subsection \<open>Session negotiator\<close>

text \<open>
  Claim C3. When the login state was fetched, the challenge solved and the answer to the
  login carries the SID \<open>0000000000000000\<close>, \<open>create\<close> throws the error
  \<open>Failed to login! Wrong username or password\<close>; and no run of \<open>create\<close>
  whatsoever returns that SID.
\<close>

theorem sentinel_rejected:
  "(getLoginState h = Inr st \<longrightarrow> solve h lib (challenge st) pass = Inr cr \<longrightarrow>
    sendResponse h user cr = Inr (Some ''0000000000000000'') \<longrightarrow>
    snd (create cfg h lib user pass) = Inl (Error ''Failed to login! Wrong username or password''))
   \<and> snd (create cfg h lib user pass) \<noteq> Inr (Some ''0000000000000000'')"
  by (simp add: create_solved create_never_sentinel login_failed_def)

theorem sentinel_rejected_witness:
  "getLoginState (box (login_info ''2$10000$5A1711$2000$AA00'' ''0'') (session_info ''0000000000000000'')) =
     Inr \<lparr>challenge = ''2$10000$5A1711$2000$AA00'', blockTime = Some ''0'', isPbkdf2 = True\<rparr>
   \<and> solve (box (login_info ''2$10000$5A1711$2000$AA00'' ''0'') (session_info ''0000000000000000''))
         placeholder_crypto ''2$10000$5A1711$2000$AA00'' ''pw''
       = Inr ''AA00$0000000000000000000000000000000000000000000000000000000000000000''
   \<and> sendResponse (box (login_info ''2$10000$5A1711$2000$AA00'' ''0'') (session_info ''0000000000000000''))
         ''user'' ''AA00$0000000000000000000000000000000000000000000000000000000000000000''
       = Inr (Some ''0000000000000000'')
   \<and> snd (create shipped_settings
             (box (login_info ''2$10000$5A1711$2000$AA00'' ''0'') (session_info ''0000000000000000''))
             placeholder_crypto ''user'' ''pw'')
       = Inl (Error ''Failed to login! Wrong username or password'')"
proof -
  let ?h = "box (login_info ''2$10000$5A1711$2000$AA00'' ''0'') (session_info ''0000000000000000'')"
  let ?st = "\<lparr>challenge = ''2$10000$5A1711$2000$AA00'', blockTime = Some ''0'', isPbkdf2 = True\<rparr>"
  let ?cr = "''AA00$0000000000000000000000000000000000000000000000000000000000000000''"
  have h1: "getLoginState ?h = Inr ?st" by code_simp
  have h2: "solve ?h placeholder_crypto (challenge ?st) ''pw'' = Inr ?cr"
    by (simp add: solve_def calculatePbkdf2Response_def at_index_def placeholder_crypto_def)
  have h3: "sendResponse ?h ''user'' ?cr = Inr (Some ''0000000000000000'')"
    by code_simp
  from h1 h2 h3 sentinel_rejected [of ?h ?st placeholder_crypto "''pw''" ?cr "''user''" shipped_settings]
  show ?thesis by simp
qed

text \<open>
  Claim C4, as amended. The stages of every run of \<open>create\<close> come in the order
  fetch, solve, wait, submit: a run whose fetch fails stops after the fetch, a run whose
  solver fails stops after the solver, and any other run fetches, solves, waits exactly
  when the block time is above zero, and then submits. The wait follows the call of the
  solver and precedes the submission.
\<close>

theorem stage_order:
  "stages (fst (create cfg h lib user pass)) =
     (case getLoginState h of
        Inl err \<Rightarrow> [FetchingState]
      | Inr st \<Rightarrow>
          (case solve h lib (challenge st) pass of
             Inl err \<Rightarrow> [FetchingState, Solving]
           | Inr cr \<Rightarrow>
               [FetchingState, Solving]
               @ (if js_gt (Number_null (blockTime st)) (Fin 0) then [WaitingLockout] else [])
               @ [Submitting]))"
  by (simp add: create_fetch_failed create_solve_failed create_solved stages_Cons stages_append stages_Nil
        stages_solve_events stages_wait_events split: sum.splits)

theorem stage_order_witness:
  "stages (fst (create shipped_settings
                  (box (login_info ''2$10000$5A1711$2000$AA00'' ''0'') (session_info ''9a8b7c6d5e4f3a2b''))
                  placeholder_crypto ''user'' ''pw''))
     = [FetchingState, Solving, Submitting]"
proof -
  let ?h = "box (login_info ''2$10000$5A1711$2000$AA00'' ''0'') (session_info ''9a8b7c6d5e4f3a2b'')"
  have h1: "getLoginState ?h =
      Inr \<lparr>challenge = ''2$10000$5A1711$2000$AA00'', blockTime = Some ''0'', isPbkdf2 = True\<rparr>"
    by code_simp
  have h2: "solve ?h placeholder_crypto ''2$10000$5A1711$2000$AA00'' ''pw'' =
      Inr ''AA00$0000000000000000000000000000000000000000000000000000000000000000''"
    by (simp add: solve_def calculatePbkdf2Response_def at_index_def placeholder_crypto_def)
  have h3: "\<not> js_gt (Number_null (Some ''0'')) (Fin 0)" by code_simp
  show ?thesis
    using stage_order [of shipped_settings ?h placeholder_crypto "''user''" "''pw''"] h3
    by (simp add: h1 h2)
qed

text \<open>
  The claim as stated puts the wait before the solver. With the block time \<open>5\<close> the
  run solves the challenge first and waits afterwards.
\<close>

theorem wait_before_solve_counterexample:
  "js_gt (Number_null (Some ''5'')) (Fin 0)
   \<and> fst (create shipped_settings
             (box (login_info ''2$10000$5A1711$2000$AA00'' ''5'') (session_info ''9a8b7c6d5e4f3a2b''))
             placeholder_crypto ''user'' ''pw'')
       = [HttpGet ''http://fritz.box/login_sid.lua?version=2'',
          ConsoleLog ''PBKDF2 supported'',
          Call_calculatePbkdf2Response ''2$10000$5A1711$2000$AA00'',
          ConsoleLog ''Waiting for 5 seconds...'',
          Notification ''Waiting for 5 seconds...'',
          ConsoleLog ''Notification: Waiting for 5 seconds...'',
          TimerSchedule (Fin 5000),
          HttpPost ''http://fritz.box/login_sid.lua?version=2''
            ''username=user&response=AA00%240000000000000000000000000000000000000000000000000000000000000000'']
   \<and> stages (fst (create shipped_settings
                     (box (login_info ''2$10000$5A1711$2000$AA00'' ''5'') (session_info ''9a8b7c6d5e4f3a2b''))
                     placeholder_crypto ''user'' ''pw''))
       = [FetchingState, Solving, WaitingLockout, Submitting]
   \<and> stages (fst (create shipped_settings
                     (box (login_info ''2$10000$5A1711$2000$AA00'' ''5'') (session_info ''9a8b7c6d5e4f3a2b''))
                     placeholder_crypto ''user'' ''pw''))
       \<noteq> stage_order_spec True"
proof -
  let ?h = "box (login_info ''2$10000$5A1711$2000$AA00'' ''5'') (session_info ''9a8b7c6d5e4f3a2b'')"
  let ?st = "\<lparr>challenge = ''2$10000$5A1711$2000$AA00'', blockTime = Some ''5'', isPbkdf2 = True\<rparr>"
  let ?cr = "''AA00$0000000000000000000000000000000000000000000000000000000000000000''"
  let ?t = "[HttpGet ''http://fritz.box/login_sid.lua?version=2'',
          ConsoleLog ''PBKDF2 supported'',
          Call_calculatePbkdf2Response ''2$10000$5A1711$2000$AA00'',
          ConsoleLog ''Waiting for 5 seconds...'',
          Notification ''Waiting for 5 seconds...'',
          ConsoleLog ''Notification: Waiting for 5 seconds...'',
          TimerSchedule (Fin 5000),
          HttpPost ''http://fritz.box/login_sid.lua?version=2''
            ''username=user&response=AA00%240000000000000000000000000000000000000000000000000000000000000000'']"
  have h1: "getLoginState ?h = Inr ?st" by code_simp
  have h2: "solve ?h placeholder_crypto (challenge ?st) ''pw'' = Inr ?cr"
    by (simp add: solve_def calculatePbkdf2Response_def at_index_def placeholder_crypto_def)
  have g: "js_gt (Number_null (Some ''5'')) (Fin 0)" by code_simp
  have e: "solve_events ''2$10000$5A1711$2000$AA00'' =
      [ConsoleLog ''PBKDF2 supported'', Call_calculatePbkdf2Response ''2$10000$5A1711$2000$AA00'']"
    by code_simp
  have w: "wait_events shipped_settings (Some ''5'') =
      [ConsoleLog ''Waiting for 5 seconds...'',
       Notification ''Waiting for 5 seconds...'',
       ConsoleLog ''Notification: Waiting for 5 seconds...'',
       TimerSchedule (Fin 5000)]"
    by code_simp
  have b: "login_body ''user'' ?cr =
      ''username=user&response=AA00%240000000000000000000000000000000000000000000000000000000000000000''"
    by code_simp
  have u: "BOX_URL @ LOGIN_SID_ROUTE = ''http://fritz.box/login_sid.lua?version=2''"
    by code_simp
  have run: "fst (create shipped_settings ?h placeholder_crypto ''user'' ''pw'') = ?t"
    using create_solved [OF h1 h2, of shipped_settings "''user''"] by (simp add: e w b u)
  have st: "stages ?t = [FetchingState, Solving, WaitingLockout, Submitting]" by code_simp
  have ne: "[FetchingState, Solving, WaitingLockout, Submitting] \<noteq> stage_order_spec True" by code_simp
  show ?thesis unfolding run st using g ne by simp
qed

text \<open>
  Claim C6, as amended. When the login state was fetched, the challenge solved and the
  login request fails in transport with an error \<open>err\<close>, then \<open>sendResponse\<close> fails
  with \<open>err\<close> and \<open>create\<close> throws an error with the message
  \<open>Failed to login!\<close> followed by the message of \<open>err\<close>; it returns no token.
\<close>

theorem submit_transport_failure:
  assumes "getLoginState h = Inr st" and "solve h lib (challenge st) pass = Inr cr"
    and "loadString_POST h (BOX_URL @ LOGIN_SID_ROUTE) (login_body user cr) = Inl err"
  shows "sendResponse h user cr = Inl err
         \<and> snd (create cfg h lib user pass) = Inl (Error (''Failed to login! '' @ message err))"
  using assms by (simp add: create_solved sendResponse_def login_failed_def)

theorem submit_transport_failure_witness:
  "getLoginState ((box (login_info ''2$10000$5A1711$2000$AA00'' ''0'') [])
       \<lparr>loadString_POST := (\<lambda>url body. Inl (Error ''The request timed out.''))\<rparr>) =
     Inr \<lparr>challenge = ''2$10000$5A1711$2000$AA00'', blockTime = Some ''0'', isPbkdf2 = True\<rparr>
   \<and> solve ((box (login_info ''2$10000$5A1711$2000$AA00'' ''0'') [])
               \<lparr>loadString_POST := (\<lambda>url body. Inl (Error ''The request timed out.''))\<rparr>)
         placeholder_crypto ''2$10000$5A1711$2000$AA00'' ''pw''
       = Inr ''AA00$0000000000000000000000000000000000000000000000000000000000000000''
   \<and> snd (create shipped_settings
             ((box (login_info ''2$10000$5A1711$2000$AA00'' ''0'') [])
                \<lparr>loadString_POST := (\<lambda>url body. Inl (Error ''The request timed out.''))\<rparr>)
             placeholder_crypto ''user'' ''pw'')
       = Inl (Error ''Failed to login! The request timed out.'')"
proof -
  let ?h = "(box (login_info ''2$10000$5A1711$2000$AA00'' ''0'') [])
       \<lparr>loadString_POST := (\<lambda>url body. Inl (Error ''The request timed out.''))\<rparr>"
  let ?st = "\<lparr>challenge = ''2$10000$5A1711$2000$AA00'', blockTime = Some ''0'', isPbkdf2 = True\<rparr>"
  let ?cr = "''AA00$0000000000000000000000000000000000000000000000000000000000000000''"
  have h1: "getLoginState ?h = Inr ?st" by code_simp
  have h2: "solve ?h placeholder_crypto (challenge ?st) ''pw'' = Inr ?cr"
    by (simp add: solve_def calculatePbkdf2Response_def at_index_def placeholder_crypto_def)
  have h3: "loadString_POST ?h (BOX_URL @ LOGIN_SID_ROUTE) (login_body ''user'' ?cr)
            = Inl (Error ''The request timed out.'')"
    by (simp add: box_def)
  from h1 h2 submit_transport_failure [OF h1 h2 h3, of shipped_settings]
  show ?thesis by simp
qed

text \<open>
  The claim as stated also promises an error for an answer without \<open>SID\<close> element.
  On such an answer \<open>sendResponse\<close> returns \<open>null\<close>, which is not the rejected
  SID, and \<open>create\<close> returns it without throwing.
\<close>

theorem missing_sid_counterexample:
  "sendResponse
     (box (login_info ''2$10000$5A1711$2000$AA00'' ''0'') [StartElement ''SessionInfo'', EndElement ''SessionInfo''])
     ''user'' ''AA00$0000000000000000000000000000000000000000000000000000000000000000'' = Inr None
   \<and> create shipped_settings
        (box (login_info ''2$10000$5A1711$2000$AA00'' ''0'') [StartElement ''SessionInfo'', EndElement ''SessionInfo''])
        placeholder_crypto ''user'' ''pw''
       = ([HttpGet ''http://fritz.box/login_sid.lua?version=2'',
           ConsoleLog ''PBKDF2 supported'',
           Call_calculatePbkdf2Response ''2$10000$5A1711$2000$AA00'',
           HttpPost ''http://fritz.box/login_sid.lua?version=2''
             ''username=user&response=AA00%240000000000000000000000000000000000000000000000000000000000000000''],
          Inr None)"
proof -
  let ?h = "box (login_info ''2$10000$5A1711$2000$AA00'' ''0'')
              [StartElement ''SessionInfo'', EndElement ''SessionInfo'']"
  let ?st = "\<lparr>challenge = ''2$10000$5A1711$2000$AA00'', blockTime = Some ''0'', isPbkdf2 = True\<rparr>"
  let ?cr = "''AA00$0000000000000000000000000000000000000000000000000000000000000000''"
  have h1: "getLoginState ?h = Inr ?st" by code_simp
  have h2: "solve ?h placeholder_crypto (challenge ?st) ''pw'' = Inr ?cr"
    by (simp add: solve_def calculatePbkdf2Response_def at_index_def placeholder_crypto_def)
  have s: "sendResponse ?h ''user'' ?cr = Inr None" by code_simp
  have e: "solve_events ''2$10000$5A1711$2000$AA00'' =
      [ConsoleLog ''PBKDF2 supported'', Call_calculatePbkdf2Response ''2$10000$5A1711$2000$AA00'']"
    by code_simp
  have w: "wait_events shipped_settings (Some ''0'') = []" by code_simp
  have b: "login_body ''user'' ?cr =
      ''username=user&response=AA00%240000000000000000000000000000000000000000000000000000000000000000''"
    by code_simp
  have u: "BOX_URL @ LOGIN_SID_ROUTE = ''http://fritz.box/login_sid.lua?version=2''"
    by code_simp
  have run: "create shipped_settings ?h placeholder_crypto ''user'' ''pw'' =
       ([HttpGet ''http://fritz.box/login_sid.lua?version=2'',
           ConsoleLog ''PBKDF2 supported'',
           Call_calculatePbkdf2Response ''2$10000$5A1711$2000$AA00'',
           HttpPost ''http://fritz.box/login_sid.lua?version=2''
             ''username=user&response=AA00%240000000000000000000000000000000000000000000000000000000000000000''],
          Inr None)"
    using create_solved [OF h1 h2, of shipped_settings "''user''"] by (simp add: e w b u s)
  from s run show ?thesis by simp
qed




subsection \<open>Temperature codec\<close>

text \<open>
  Claim C5, as amended. For every Celsius value \<open>c\<close> from 8 to 28 that is a multiple of
  0.5, \<open>celsiusOnOffToFritz\<close> gives the device value \<open>2 * c\<close>, and
  \<open>fritzToCelsiusOnOff\<close> of that value gives \<open>c\<close> back.
\<close>

theorem roundtrip_8_28:
  assumes "8 \<le> c" and "c \<le> 28" and "2 * c \<in> \<int>"
  shows "celsiusOnOffToFritz (JNum (Fin c)) = Inr (Fin (2 * c))
         \<and> fritzToCelsiusOnOff (JNum (Fin (2 * c))) = JNum (Fin c)"
proof -
  from assms(3) obtain z :: int where z: "2 * c = of_int z" by (auto elim: Ints_cases)
  with assms have "16 \<le> z" "z \<le> 56" by linarith+
  define k where "k = nat z"
  with \<open>16 \<le> z\<close> \<open>z \<le> 56\<close> have k: "16 \<le> k" "k \<le> 56" "z = int k" by simp_all
  from z k have c: "c = of_nat k / 2" by simp
  show ?thesis
    unfolding c using roundtrip_nat [OF k(1) k(2)] by simp
qed

theorem roundtrip_8_28_witness:
  "(8::rat) \<le> 39 / 2 \<and> (39 / 2 :: rat) \<le> 28 \<and> 2 * (39 / 2 :: rat) \<in> \<int>
   \<and> celsiusOnOffToFritz (JNum (Fin (39 / 2))) = Inr (Fin 39)
   \<and> fritzToCelsiusOnOff (JNum (Fin 39)) = JNum (Fin (39 / 2))"
proof -
  have h: "(8::rat) \<le> 39 / 2" "(39 / 2 :: rat) \<le> 28" "2 * (39 / 2 :: rat) \<in> \<int>" by simp_all
  show ?thesis using h roundtrip_8_28 [OF h] by simp
qed

text \<open>
  The claim as stated lets \<open>c\<close> range up to 36. The value 30 lies on the grid, its
  device value 60 is above 56 and clamped to 254, and the way back gives \<open>ON\<close>.
\<close>

theorem roundtrip_30_counterexample:
  "celsiusOnOffToFritz (JNum (Fin 30)) = Inr (Fin 254)
   \<and> fritzToCelsiusOnOff (JNum (Fin 254)) = JStr ''ON''
   \<and> fritzToCelsiusOnOff (JNum (Fin 254)) \<noteq> JNum (Fin 30)"
  by code_simp

text \<open>
  Claim C8, as amended. For \<open>sethkrtsoll\<close> with the Celsius setting, \<open>parseArgs\<close>
  turns a parameter that is \<open>off\<close> or \<open>0\<close> in any letter case into 253 and one that
  is \<open>on\<close> into 254, and \<open>celsiusOnOffToFritz\<close> itself maps the strings \<open>off\<close> and
  \<open>on\<close> in any letter case to 253 and 254. For every Celsius number other than 253,
  \<open>celsiusOnOffToFritz\<close> computes what the specification words: round to the nearest
  0.5 (half up), map by \<open>16 + (celsius - 8) / 0.5\<close>, clamp a result below 16 to 253 and a
  result above 56 that is not already 253 or 254 to 254. The number 253 is passed through
  as 253. In particular 7.8 gives 16, 7.7 gives 253 and 40 gives 254.
\<close>

theorem toDeviceFormat_refines:
  "(USE_CELSIUS_ON_OFF cfg \<longrightarrow> switchcmd args = Some ''sethkrtsoll'' \<longrightarrow> param args = Some (JStr s) \<longrightarrow>
      (toLowerCase s = ''off'' \<or> toLowerCase s = ''0'' \<longrightarrow>
         parseArgs cfg args = Inr (args\<lparr>param := Some (JNum (Fin 253))\<rparr>))
      \<and> (toLowerCase s = ''on'' \<longrightarrow>
         parseArgs cfg args = Inr (args\<lparr>param := Some (JNum (Fin 254))\<rparr>)))
   \<and> (toLowerCase s = ''off'' \<longrightarrow> celsiusOnOffToFritz (JStr s) = Inr (Fin 253))
   \<and> (toLowerCase s = ''on'' \<longrightarrow> celsiusOnOffToFritz (JStr s) = Inr (Fin 254))
   \<and> (c \<noteq> 253 \<longrightarrow> celsiusOnOffToFritz (JNum (Fin c)) = Inr (Fin (toDeviceFormat_spec c)))
   \<and> celsiusOnOffToFritz (JNum (Fin 253)) = Inr (Fin 253)
   \<and> celsiusOnOffToFritz (JNum (Fin (39 / 5))) = Inr (Fin 16)
   \<and> celsiusOnOffToFritz (JNum (Fin (77 / 10))) = Inr (Fin 253)
   \<and> celsiusOnOffToFritz (JNum (Fin 40)) = Inr (Fin 254)"
  using parseArgs_off [of cfg args s] parseArgs_on [of cfg args s] toDeviceFormat_numeric [of c]
    toDevice_off [of s] toDevice_on [of s]
  by (simp add: toDevice_7_8 toDevice_7_7 toDevice_40 toDevice_253)

theorem toDeviceFormat_refines_witness:
  "USE_CELSIUS_ON_OFF shipped_settings
   \<and> toLowerCase ''OFF'' = ''off''
   \<and> parseArgs shipped_settings \<lparr>switchcmd = Some ''sethkrtsoll'', param = Some (JStr ''OFF'')\<rparr>
       = Inr \<lparr>switchcmd = Some ''sethkrtsoll'', param = Some (JNum (Fin 253))\<rparr>
   \<and> (40::rat) \<noteq> 253
   \<and> celsiusOnOffToFritz (JNum (Fin 40)) = Inr (Fin (toDeviceFormat_spec 40))
   \<and> toDeviceFormat_spec 40 = 254"
proof -
  have h1: "USE_CELSIUS_ON_OFF shipped_settings" by (simp add: shipped_settings_def)
  have h2: "toLowerCase ''OFF'' = ''off''" by code_simp
  have h3: "toDeviceFormat_spec 40 = 254" by code_simp
  from h1 h2 h3
    toDeviceFormat_refines [of shipped_settings
      "\<lparr>switchcmd = Some ''sethkrtsoll'', param = Some (JStr ''OFF'')\<rparr>" "''OFF''" 40]
  show ?thesis by simp
qed

text \<open>
  The claim as stated gives 253 for the input 7.8, which rounds to 8.0 and maps to 16; and
  its rule for every number gives 254 for the input 253, which the code passes through.
\<close>

theorem toDeviceFormat_counterexample:
  "celsiusOnOffToFritz (JNum (Fin (39 / 5))) = Inr (Fin 16)
   \<and> celsiusOnOffToFritz (JNum (Fin 253)) = Inr (Fin 253)
   \<and> toDeviceFormat_spec 253 = 254"
  by code_simp

subsection \<open>Response interpreter\<close>

text \<open>
  Claim C9. For every raw text, and every verb among \<open>gettemperature\<close>,
  \<open>sethkrtsoll\<close>, \<open>gethkrtsoll\<close>, \<open>gethkrkomfort\<close> and \<open>gethkrabsenk\<close> with the
  Celsius setting, \<open>parseResponse\<close> is the label \<open>Response:\<close>, the label
  \<open>Heater set to\<close> and the result of \<open>fritzToCelsiusOnOff\<close>, followed by the degree
  marker when that result is a number; the raw text \<open>38\<close> gives 19 degrees. For every
  verb and every setting the output begins with \<open>Response:\<close> and a space.
\<close>

theorem parseResponse_format:
  "(cmd \<in> {''gettemperature'', ''sethkrtsoll'', ''gethkrtsoll'', ''gethkrkomfort'', ''gethkrabsenk''} \<longrightarrow>
    USE_CELSIUS_ON_OFF cfg \<longrightarrow>
      parseResponse cfg raw (Some cmd) =
        ''Response: '' @ ''Heater set to ''
        @ (case fritzToCelsiusOnOff (JStr raw) of
             JNum n \<Rightarrow> number_to_string n @ [CHR 0xB0, CHR ''C'']
           | JStr s \<Rightarrow> s)
      \<and> parseResponse cfg ''38'' (Some cmd) = ''Response: Heater set to 19'' @ [CHR 0xB0, CHR ''C''])
   \<and> startsWith (parseResponse cfg raw verb) ''Response: ''"
proof -
  have "parseResponse cfg raw (Some cmd) =
        ''Response: '' @ ''Heater set to ''
        @ (case fritzToCelsiusOnOff (JStr raw) of
             JNum n \<Rightarrow> number_to_string n @ [CHR 0xB0, CHR ''C'']
           | JStr s \<Rightarrow> s)
      \<and> parseResponse cfg ''38'' (Some cmd) = ''Response: Heater set to 19'' @ [CHR 0xB0, CHR ''C'']"
    if "cmd \<in> set temperature_verbs" and "USE_CELSIUS_ON_OFF cfg"
    using that by (simp add: parseResponse_temperature fritz_38 nts_19 del: number_to_string.simps)
  moreover have "set temperature_verbs =
      {''gettemperature'', ''sethkrtsoll'', ''gethkrtsoll'', ''gethkrkomfort'', ''gethkrabsenk''}"
    by (simp add: temperature_verbs_def)
  ultimately show ?thesis
    using parseResponse_prefix [of cfg raw verb] by simp
qed

theorem parseResponse_format_witness:
  "USE_CELSIUS_ON_OFF shipped_settings
   \<and> parseResponse shipped_settings ''253'' (Some ''gethkrtsoll'') = ''Response: Heater set to OFF''
   \<and> parseResponse shipped_settings ''38'' (Some ''gethkrtsoll'') = ''Response: Heater set to 19'' @ [CHR 0xB0, CHR ''C'']"
proof -
  have h1: "USE_CELSIUS_ON_OFF shipped_settings" by (simp add: shipped_settings_def)
  have h2: "fritzToCelsiusOnOff (JStr ''253'') = JStr ''OFF''" by code_simp
  from h1 h2 parseResponse_format [of "''gethkrtsoll''" shipped_settings "''253''" None]
  show ?thesis by simp
qed



end
